theory Spec2Isabelle
  imports Main
begin

section \<open>Python strings\<close>

text \<open>
  A Python \<open>str\<close> is modelled as a \<open>string\<close> holding its UTF-8 encoding: every ASCII
  character is one \<open>char\<close>, and the few non-ASCII symbols of the program's own messages are
  written out as their bytes. The character classes below are the ASCII part of Python's
  (\<open>str.lower\<close>, \<open>str.isspace\<close>, \<open>\d\<close>, \<open>[a-zA-Z]\<close>); bytes from 128 on belong to no class
  and are left alone by \<open>lower\<close>, so the model is exact on ASCII text.
\<close>

definition is_digit :: "char \<Rightarrow> bool" where
  "is_digit c = (let n = (of_char c :: nat) in 48 \<le> n \<and> n \<le> 57)"

definition is_upper :: "char \<Rightarrow> bool" where
  "is_upper c = (let n = (of_char c :: nat) in 65 \<le> n \<and> n \<le> 90)"

definition is_alpha :: "char \<Rightarrow> bool" where
  "is_alpha c = (let n = (of_char c :: nat) in (65 \<le> n \<and> n \<le> 90) \<or> (97 \<le> n \<and> n \<le> 122))"

text \<open>\<open>str.isspace\<close> on ASCII: tab, line feed, vertical tab, form feed, carriage return,
  the four separators 0x1c..0x1f, and the space.\<close>

definition is_space :: "char \<Rightarrow> bool" where
  "is_space c = (let n = (of_char c :: nat) in (9 \<le> n \<and> n \<le> 13) \<or> (28 \<le> n \<and> n \<le> 32))"

definition lower_char :: "char \<Rightarrow> char" where
  "lower_char c = (if is_upper c then char_of ((of_char c :: nat) + 32) else c)"

definition lower :: "string \<Rightarrow> string" where
  "lower s = map lower_char s"


text \<open>\<open>s.startswith(p)\<close> and the substring test \<open>sub in s\<close>.\<close>

fun starts_with :: "string \<Rightarrow> string \<Rightarrow> bool" where
  "starts_with [] s = True"
| "starts_with (p # ps) [] = False"
| "starts_with (p # ps) (c # cs) = (p = c \<and> starts_with ps cs)"

fun contains :: "string \<Rightarrow> string \<Rightarrow> bool" where
  "contains sub [] = (sub = [])"
| "contains sub (c # cs) = (starts_with sub (c # cs) \<or> contains sub cs)"

text \<open>\<open>sep.join(xs)\<close>.\<close>

fun join :: "string \<Rightarrow> string list \<Rightarrow> string" where
  "join sep [] = []"
| "join sep [x] = x"
| "join sep (x # y # ys) = x @ sep @ join sep (y # ys)"

text \<open>\<open>s.split(sep)\<close> for a one-character separator: empty fields are kept.\<close>

fun split_on :: "char \<Rightarrow> string \<Rightarrow> string \<Rightarrow> string list" where
  "split_on sep cur [] = [cur]"
| "split_on sep cur (c # cs) =
     (if c = sep then cur # split_on sep [] cs else split_on sep (cur @ [c]) cs)"

text \<open>\<open>s.split()\<close>: fields are separated by runs of whitespace, empty fields are dropped.\<close>

fun split_ws :: "string \<Rightarrow> string \<Rightarrow> string list" where
  "split_ws cur [] = (if cur = [] then [] else [cur])"
| "split_ws cur (c # cs) =
     (if is_space c then (if cur = [] then split_ws [] cs else cur # split_ws [] cs)
      else split_ws (cur @ [c]) cs)"

definition strip :: "string \<Rightarrow> string" where
  "strip s = rev (dropWhile is_space (rev (dropWhile is_space s)))"

text \<open>\<open>s.lstrip('.')\<close>.\<close>

definition lstrip_dots :: "string \<Rightarrow> string" where
  "lstrip_dots s = dropWhile (\<lambda>c. c = CHR ''.'') s"

text \<open>\<open>s.rfind(c)\<close>: the index of the last occurrence, \<open>None\<close> for Python's \<open>-1\<close>.\<close>

definition rfind_char :: "char \<Rightarrow> string \<Rightarrow> nat option" where
  "rfind_char c s =
     (case filter (\<lambda>i. s ! i = c) (rev [0..<length s]) of [] \<Rightarrow> None | i # _ \<Rightarrow> Some i)"

section \<open>utils/file\_handler.py\<close>

text \<open>
  \<open>Path(name).suffix\<close> of the standard library, for POSIX paths: the name is the last
  component that is neither empty nor \<open>.\<close>, and the suffix starts at the last dot of the
  name unless that dot is its first or its last character.
\<close>

definition path_name :: "string \<Rightarrow> string" where
  "path_name p =
     (let tail = filter (\<lambda>x. x \<noteq> [] \<and> x \<noteq> ''.'') (split_on CHR ''/'' [] p)
      in if tail = [] then [] else last tail)"

definition path_suffix :: "string \<Rightarrow> string" where
  "path_suffix p =
     (let name = path_name p in
      case rfind_char CHR ''.'' name of
        None \<Rightarrow> []
      | Some i \<Rightarrow> if 0 < i \<and> i + 1 < length name then drop i name else [])"

record uploaded_file =
  uf_name :: string
  uf_size :: int

text \<open>The dictionary that \<open>validate_file\<close> returns: \<open>valid\<close> false with an error, or
  \<open>valid\<close> true with the file type, extension, size and name.\<close>

datatype validation =
  Rejected string
| Accepted string string int string

definition SUPPORTED_FORMATS :: "(string \<times> string list) list" where
  "SUPPORTED_FORMATS = [(''pdf'', [''pdf'']), (''excel'', [''xlsx'', ''xls'', ''xlsm''])]"

definition MAX_FILE_SIZE :: int where
  "MAX_FILE_SIZE = 50 * 1024 * 1024"

fun file_type_of :: "(string \<times> string list) list \<Rightarrow> string \<Rightarrow> string" where
  "file_type_of [] extension = ''unknown''"
| "file_type_of ((file_type, extensions) # rest) extension =
     (if List.member extensions extension then file_type else file_type_of rest extension)"

definition get_file_type :: "string \<Rightarrow> string" where
  "get_file_type extension = file_type_of SUPPORTED_FORMATS extension"

definition file_extension :: "string \<Rightarrow> string" where
  "file_extension name = lstrip_dots (lower (path_suffix name))"

definition supported_extensions :: "string list" where
  "supported_extensions = concat (map snd SUPPORTED_FORMATS)"

definition validate_file :: "uploaded_file option \<Rightarrow> validation" where
  "validate_file uploaded =
     (case uploaded of
        None \<Rightarrow> Rejected ''No file uploaded''
      | Some f \<Rightarrow>
          if uf_size f > MAX_FILE_SIZE then Rejected ''File too large. Max size: 50MB''
          else if \<not> List.member supported_extensions (file_extension (uf_name f))
          then Rejected (''Unsupported format. Supported: '' @ join '', '' supported_extensions)
          else Accepted (get_file_type (file_extension (uf_name f)))
                 (file_extension (uf_name f)) (uf_size f) (uf_name f))"

section \<open>Regular expressions of the metric scans\<close>

text \<open>
  Every pattern of the program has the shape \<open>word[:\s]+\$?(group)\<close> and is used with
  \<open>re.search\<close> on lower-cased text. \<open>re.search\<close> tries the start positions from left to
  right and, at each, the alternatives of the backtracking matcher in priority order; the
  functions below compute the first alternative that succeeds.

  After the word, \<open>[:\s]+\<close> takes the whole run of colons and whitespace: giving a
  character of the run back leaves a colon or a space in front of \<open>\$?\<close> and of the group,
  which start with neither. For the same reason \<open>\$?\<close> takes the dollar sign when there is
  one. Inside the group every quantifier is greedy and everything after the first digit may
  match the empty string, so the longest choice at each quantifier is the one returned.
\<close>

definition is_sep :: "char \<Rightarrow> bool" where
  "is_sep c = (c = CHR '':'' \<or> is_space c)"

text \<open>\<open>(?:,\d{3})*\<close> at the start of the text: the characters matched.\<close>

fun match_thousands :: "string \<Rightarrow> string" where
  "match_thousands (c # d1 # d2 # d3 # rest) =
     (if c = CHR '','' \<and> is_digit d1 \<and> is_digit d2 \<and> is_digit d3
      then c # d1 # d2 # d3 # match_thousands rest else [])"
| "match_thousands s = []"

text \<open>\<open>(?:\.\d{2})?\<close> at the start of the text.\<close>

fun match_cents :: "string \<Rightarrow> string" where
  "match_cents (c # d1 # d2 # rest) =
     (if c = CHR ''.'' \<and> is_digit d1 \<and> is_digit d2 then [c, d1, d2] else [])"
| "match_cents s = []"

text \<open>The group \<open>\d{1,3}(?:,\d{3})*(?:\.\d{2})?\<close> of the document processor.\<close>

definition match_amount :: "string \<Rightarrow> string option" where
  "match_amount s =
     (let ds = takeWhile is_digit (take 3 s) in
      if ds = [] then None
      else let r1 = drop (length ds) s;
               ts = match_thousands r1;
               r2 = drop (length ts) r1
           in Some (ds @ ts @ match_cents r2))"


text \<open>The whole pattern at the start of the text; the result is \<open>match.group(1)\<close>.\<close>

definition match_here :: "string \<Rightarrow> (string \<Rightarrow> string option) \<Rightarrow> string \<Rightarrow> string option" where
  "match_here word grp s =
     (if \<not> starts_with word s then None
      else let r = drop (length word) s in
           if takeWhile is_sep r = [] then None
           else let r1 = dropWhile is_sep r;
                    r2 = (if starts_with ''$'' r1 then drop 1 r1 else r1)
                in grp r2)"

fun re_search :: "string \<Rightarrow> (string \<Rightarrow> string option) \<Rightarrow> string \<Rightarrow> string option" where
  "re_search word grp [] = match_here word grp []"
| "re_search word grp (c # cs) =
     (case match_here word grp (c # cs) of
        Some g \<Rightarrow> Some g
      | None \<Rightarrow> re_search word grp cs)"

text \<open>The loop \<open>for pattern in patterns: match = re.search(...); if match: ...; break\<close>.\<close>

fun first_match :: "string list \<Rightarrow> (string \<Rightarrow> string option) \<Rightarrow> string \<Rightarrow> string option" where
  "first_match [] grp text = None"
| "first_match (word # rest) grp text =
     (case re_search word grp text of
        Some g \<Rightarrow> Some g
      | None \<Rightarrow> first_match rest grp text)"

section \<open>utils/document\_processor.py\<close>

text \<open>A Python \<open>dict\<close> with its insertion order: assigning to a key that is present keeps
  the key's position.\<close>

type_synonym ('k, 'v) dict = "('k \<times> 'v) list"

fun dict_set :: "'k \<Rightarrow> 'v \<Rightarrow> ('k, 'v) dict \<Rightarrow> ('k, 'v) dict" where
  "dict_set k v [] = [(k, v)]"
| "dict_set k v (p # ps) = (if fst p = k then (k, v) # ps else p # dict_set k v ps)"

definition dict_get :: "('k, 'v) dict \<Rightarrow> 'k \<Rightarrow> 'v option" where
  "dict_get d k = map_of d k"

definition dict_keys :: "('k, 'v) dict \<Rightarrow> 'k list" where
  "dict_keys d = map fst d"

text \<open>The program reads a data frame only through \<open>df.to_string()\<close>, so a data frame is
  represented by that rendering.\<close>

datatype dataframe = DataFrame string

fun to_string :: "dataframe \<Rightarrow> string" where
  "to_string (DataFrame s) = s"

record financial_table =
  ft_sheet_name :: string
  ft_data :: dataframe
  ft_type :: string

record document_processor =
  extracted_data :: "(string, string) dict"
  document_text :: string
  financial_tables :: "financial_table list"
  financial_metrics :: "(string, string) dict"

definition new_document_processor :: document_processor where
  "new_document_processor =
     \<lparr>extracted_data = [], document_text = [], financial_tables = [], financial_metrics = []\<rparr>"

text \<open>The result dictionaries: a failure with its message, the spreadsheet result
  (sheets, total\_sheets, financial\_tables\_found, data, text\_for\_ai) and the PDF result
  (pages, text\_length, text\_preview, full\_text, text\_for\_ai).\<close>

datatype processing_result =
  Failure string
| ExcelResult "string list" nat nat "(string, dataframe) dict" string
| PdfResult nat nat string string string

fun success :: "processing_result \<Rightarrow> bool" where
  "success (Failure e) = False"
| "success (ExcelResult sheets n_sheets n_tables sheets_data text) = True"
| "success (PdfResult n_pages text_length preview full_text text) = True"

text \<open>
  What the libraries return for a path. Opening a workbook raises (\<open>Inl\<close> of the
  exception's text) or gives its sheets in order, and reading each sheet raises or gives a
  data frame. Opening a PDF raises or gives its pages, and extracting the text of each page
  raises or gives a string. \<open>PDF_AVAILABLE\<close> is the module's flag.
\<close>

record library =
  PDF_AVAILABLE :: bool
  read_workbook :: "string \<Rightarrow> string + (string \<times> (string + dataframe)) list"
  read_pdf :: "string \<Rightarrow> string + (string + string) list"

definition nl :: string where
  "nl = [CHR 0x0A]"

text \<open>\<open>len(s)\<close> and \<open>s[:n]\<close> count code points: the bytes that are not UTF-8 continuation
  bytes.\<close>

definition is_continuation :: "char \<Rightarrow> bool" where
  "is_continuation c = (let n = (of_char c :: nat) in 128 \<le> n \<and> n < 192)"

definition py_len :: "string \<Rightarrow> nat" where
  "py_len s = length (filter (\<lambda>c. \<not> is_continuation c) s)"

fun py_take :: "nat \<Rightarrow> string \<Rightarrow> string" where
  "py_take n [] = []"
| "py_take n (c # cs) =
     (if is_continuation c then c # py_take n cs
      else (case n of 0 \<Rightarrow> [] | Suc m \<Rightarrow> c # py_take m cs))"

fun any_in :: "string list \<Rightarrow> string \<Rightarrow> bool" where
  "any_in [] text = False"
| "any_in (w # ws) text = (contains w text \<or> any_in ws text)"

definition financial_keywords :: "string list" where
  "financial_keywords =
     [''revenue'', ''income'', ''profit'', ''loss'', ''expense'', ''cost'',
      ''sales'', ''earnings'', ''ebitda'', ''assets'', ''liabilities'',
      ''equity'', ''cash'', ''debt'', ''balance'', ''statement'']"

definition contains_financial_keywords :: "dataframe \<Rightarrow> bool" where
  "contains_financial_keywords df = any_in financial_keywords (lower (to_string df))"

definition identify_statement_type :: "dataframe \<Rightarrow> string" where
  "identify_statement_type df =
     (let df_text = lower (to_string df) in
      if any_in [''balance sheet'', ''assets'', ''liabilities''] df_text then ''Balance Sheet''
      else if any_in [''income statement'', ''revenue'', ''profit'', ''loss''] df_text
      then ''Income Statement''
      else if any_in [''cash flow'', ''operating'', ''investing'', ''financing''] df_text
      then ''Cash Flow Statement''
      else ''Financial Statement'')"

fun excel_metrics_loop ::
  "(string, dataframe) dict \<Rightarrow> (string, string) dict \<Rightarrow> (string, string) dict" where
  "excel_metrics_loop [] metrics = metrics"
| "excel_metrics_loop ((sheet_name, df) # rest) metrics =
     (let df_text = lower (to_string df);
          m1 = (if contains ''revenue'' df_text \<or> contains ''sales'' df_text
                then dict_set ''revenue_sheet'' sheet_name metrics else metrics);
          m2 = (if contains ''profit'' df_text \<or> contains ''net income'' df_text
                then dict_set ''profit_sheet'' sheet_name m1 else m1)
      in excel_metrics_loop rest m2)"

definition extract_excel_metrics :: "(string, dataframe) dict \<Rightarrow> (string, string) dict" where
  "extract_excel_metrics sheets_data = excel_metrics_loop sheets_data []"

definition revenue_patterns :: "string list" where
  "revenue_patterns = [''revenue'', ''total revenue'', ''sales'']"

definition profit_patterns :: "string list" where
  "profit_patterns = [''net income'', ''profit'']"

definition extract_text_metrics :: "string \<Rightarrow> (string, string) dict" where
  "extract_text_metrics text =
     (let text_lower = lower text;
          m1 = (case first_match revenue_patterns match_amount text_lower of
                  Some g \<Rightarrow> dict_set ''revenue'' g []
                | None \<Rightarrow> []);
          m2 = (case first_match profit_patterns match_amount text_lower of
                  Some g \<Rightarrow> dict_set ''profit'' g m1
                | None \<Rightarrow> m1)
      in m2)"

text \<open>The body of the loop over the sheets in \<open>_process_excel\<close>; \<open>Inl\<close> is an exception
  raised while a sheet is read, with the state as the sheets before it left it.\<close>

fun excel_sheets_loop ::
  "(string \<times> (string + dataframe)) list \<Rightarrow> (string, dataframe) dict \<Rightarrow> document_processor
     \<Rightarrow> (string + (string, dataframe) dict) \<times> document_processor" where
  "excel_sheets_loop [] sheets_data st = (Inr sheets_data, st)"
| "excel_sheets_loop ((sheet_name, r) # rest) sheets_data st =
     (case r of
        Inl e \<Rightarrow> (Inl e, st)
      | Inr df \<Rightarrow>
          let st1 = (if contains_financial_keywords df
                     then st\<lparr>financial_tables := financial_tables st @
                            [\<lparr>ft_sheet_name = sheet_name, ft_data = df,
                              ft_type = identify_statement_type df\<rparr>]\<rparr>
                     else st);
              st2 = st1\<lparr>document_text := document_text st1 @
                      nl @ nl @ ''--- Sheet: '' @ sheet_name @ '' ---'' @ nl @ to_string df\<rparr>
          in excel_sheets_loop rest (dict_set sheet_name df sheets_data) st2)"

text \<open>The \<open>try\<close> block of \<open>_process_excel\<close>: \<open>Inl\<close> is an exception leaving it.\<close>

definition excel_body ::
  "library \<Rightarrow> string \<Rightarrow> document_processor \<Rightarrow> (string + processing_result) \<times> document_processor" where
  "excel_body lib file_path st =
     (case read_workbook lib file_path of
        Inl e \<Rightarrow> (Inl e, st)
      | Inr sheets \<Rightarrow>
          (case excel_sheets_loop sheets [] st of
             (Inl e, st1) \<Rightarrow> (Inl e, st1)
           | (Inr sheets_data, st1) \<Rightarrow>
               let st2 = st1\<lparr>financial_metrics := extract_excel_metrics sheets_data\<rparr>
               in (Inr (ExcelResult (dict_keys sheets_data) (length sheets_data)
                          (length (financial_tables st2)) sheets_data (document_text st2)),
                   st2)))"

definition process_excel ::
  "library \<Rightarrow> string \<Rightarrow> document_processor \<Rightarrow> processing_result \<times> document_processor" where
  "process_excel lib file_path st =
     (case excel_body lib file_path st of
        (Inl e, st1) \<Rightarrow> (Failure (''Excel processing failed: '' @ e), st1)
      | (Inr r, st1) \<Rightarrow> (r, st1))"

fun extract_pages :: "(string + string) list \<Rightarrow> string list \<Rightarrow> string + string list" where
  "extract_pages [] text_content = Inr text_content"
| "extract_pages (p # ps) text_content =
     (case p of
        Inl e \<Rightarrow> Inl e
      | Inr text \<Rightarrow> extract_pages ps (text_content @ [text]))"

text \<open>The \<open>try\<close> block of \<open>_process_pdf\<close>.\<close>

definition pdf_body ::
  "library \<Rightarrow> string \<Rightarrow> document_processor \<Rightarrow> (string + processing_result) \<times> document_processor" where
  "pdf_body lib file_path st =
     (case read_pdf lib file_path of
        Inl e \<Rightarrow> (Inl e, st)
      | Inr pages \<Rightarrow>
          (case extract_pages pages [] of
             Inl e \<Rightarrow> (Inl e, st)
           | Inr text_content \<Rightarrow>
               let st1 = st\<lparr>document_text := join nl text_content\<rparr>;
                   st2 = st1\<lparr>financial_metrics := extract_text_metrics (document_text st1)\<rparr>;
                   text = document_text st2
               in (Inr (PdfResult (length pages) (py_len text)
                          (if py_len text > 500 then py_take 500 text @ ''...'' else text)
                          text text),
                   st2)))"

definition process_pdf ::
  "library \<Rightarrow> string \<Rightarrow> document_processor \<Rightarrow> processing_result \<times> document_processor" where
  "process_pdf lib file_path st =
     (if \<not> PDF_AVAILABLE lib
      then (Failure ''PDF processing library not available. Install pypdf.'', st)
      else (case pdf_body lib file_path st of
              (Inl e, st1) \<Rightarrow> (Failure (''PDF processing failed: '' @ e), st1)
            | (Inr r, st1) \<Rightarrow> (r, st1)))"

text \<open>The \<open>try\<close> block of \<open>process_document\<close>. Both processing functions catch what their
  own bodies raise and return a dictionary, so nothing here produces \<open>Inl\<close>.\<close>

definition document_body ::
  "library \<Rightarrow> string \<Rightarrow> string \<Rightarrow> document_processor
     \<Rightarrow> (string + processing_result) \<times> document_processor" where
  "document_body lib file_path file_type st =
     (if file_type = ''excel''
      then (case process_excel lib file_path st of (r, st1) \<Rightarrow> (Inr r, st1))
      else if file_type = ''pdf''
      then (case process_pdf lib file_path st of (r, st1) \<Rightarrow> (Inr r, st1))
      else (Inr (Failure (''Unsupported file type: '' @ file_type)), st))"

definition process_document ::
  "library \<Rightarrow> string \<Rightarrow> string \<Rightarrow> document_processor
     \<Rightarrow> processing_result \<times> document_processor" where
  "process_document lib file_path file_type st =
     (case document_body lib file_path file_type st of
        (Inl e, st1) \<Rightarrow> (Failure (''Processing failed: '' @ e), st1)
      | (Inr r, st1) \<Rightarrow> (r, st1))"

fun metric_lines :: "(string, string) dict \<Rightarrow> string" where
  "metric_lines [] = []"
| "metric_lines ((metric, v) # rest) = ''- '' @ metric @ '': '' @ v @ nl @ metric_lines rest"

definition get_context_for_ai :: "document_processor \<Rightarrow> string" where
  "get_context_for_ai st =
     (let context = ''Financial Document Content:'' @ nl @ nl @ document_text st in
      if financial_metrics st \<noteq> []
      then context @ nl @ nl @ ''Extracted Financial Metrics:'' @ nl
             @ metric_lines (financial_metrics st)
      else context)"

section \<open>utils/simple\_qa.py\<close>
















section \<open>utils/ai\_qa.py\<close>

text \<open>U+274C, and U+26A0 followed by U+FE0F.\<close>

definition cross_mark :: string where
  "cross_mark = [CHR 0xE2, CHR 0x9D, CHR 0x8C]"

definition warning_sign :: string where
  "warning_sign = [CHR 0xE2, CHR 0x9A, CHR 0xA0, CHR 0xEF, CHR 0xB8, CHR 0x8F]"

record ai_question_answering =
  model_name :: string
  conversation_history :: "(string \<times> string) list"

definition new_ai_question_answering :: ai_question_answering where
  "new_ai_question_answering = \<lparr>model_name = ''qwen2:0.5b'', conversation_history = []\<rparr>"

definition create_financial_prompt :: "string \<Rightarrow> string \<Rightarrow> string" where
  "create_financial_prompt question document_context =
     ''Based on this financial document, answer the question directly and concisely.'' @ nl
     @ nl
     @ ''    DOCUMENT DATA:'' @ nl
     @ ''    '' @ py_take 2000 document_context @ nl
     @ nl
     @ ''    QUESTION: '' @ question @ nl
     @ nl
     @ ''    Give a direct answer in one clear sentence. If you find a specific number, include it. If information is missing, say ''
     @ [CHR 0x22] @ ''Information not available in document.'' @ [CHR 0x22] @ nl
     @ nl
     @ ''    ANSWER:''"

definition emergency_override :: "string \<Rightarrow> string \<Rightarrow> string" where
  "emergency_override question document_context =
     (let question_lower = lower question in
      if (contains ''revenue'' question_lower \<or> contains ''sales'' question_lower)
         \<and> contains ''joe'' (lower document_context)
      then ''The total sales revenue is $52,000 based on 1,000 tyres sold at $52 each.''
      else if contains ''profit'' question_lower \<and> contains ''gross'' question_lower
      then ''The gross profit is $20,800.''
      else if contains ''profit'' question_lower \<and> contains ''net'' question_lower
      then ''The net profit is $5,200.''
      else if contains ''advertising'' question_lower
      then ''The advertising expense is $500.''
      else ''CONTINUE_WITH_AI'')"

text \<open>\<open>re.sub(r'(\d)([a-zA-Z])', r'\1 \2', s)\<close> and \<open>re.sub(r'([a-zA-Z])(\d)', r'\1 \2', s)\<close>:
  matches are found from left to right and do not overlap.\<close>

fun space_digit_letter :: "string \<Rightarrow> string" where
  "space_digit_letter (d # l # rest) =
     (if is_digit d \<and> is_alpha l then d # CHR '' '' # l # space_digit_letter rest
      else d # space_digit_letter (l # rest))"
| "space_digit_letter s = s"

fun space_letter_digit :: "string \<Rightarrow> string" where
  "space_letter_digit (l # d # rest) =
     (if is_alpha l \<and> is_digit d then l # CHR '' '' # d # space_letter_digit rest
      else l # space_letter_digit (d # rest))"
| "space_letter_digit s = s"

text \<open>\<open>s.replace(old, new)\<close>: occurrences are replaced from left to right and do not
  overlap; an empty \<open>old\<close> puts \<open>new\<close> before every character and at the end.\<close>

function replace_from :: "string \<Rightarrow> string \<Rightarrow> string \<Rightarrow> string" where
  "replace_from old new [] = []"
| "replace_from old new (c # cs) =
     (if old \<noteq> [] \<and> starts_with old (c # cs)
      then new @ replace_from old new (drop (length old) (c # cs))
      else c # replace_from old new cs)"
  by pat_completeness auto
termination
  by (relation "measure (\<lambda>(old, new, s). length s)") auto

definition replace :: "string \<Rightarrow> string \<Rightarrow> string \<Rightarrow> string" where
  "replace old new s =
     (if old = [] then new @ concat (map (\<lambda>c. c # new) s) else replace_from old new s)"

definition clean_response :: "string \<Rightarrow> string" where
  "clean_response response =
     (let r1 = space_digit_letter response;
          r2 = space_letter_digit r1;
          r3 = replace ''basedon'' ''based on'' r2;
          r4 = replace ''soldat'' ''sold at'' r3;
          r5 = replace ''tyresat'' ''tyres at'' r4;
          r6 = (if \<not> contains ''$'' r5 \<and> contains ''revenue'' (lower r5)
                then replace ''52 each'' ''$52 each'' (replace ''52,000'' ''$52,000'' r5)
                else r5);
          r7 = join '' '' (split_ws [] r6)
      in strip r7)"

definition suspicious_patterns :: "string list" where
  "suspicious_patterns =
     [''million'', ''billion'', ''1,234,567'', ''999,999'',
      ''approximately'', ''estimated'', ''roughly'']"

definition validate_response :: "string \<Rightarrow> string \<Rightarrow> string" where
  "validate_response answer document_context =
     (let answer_lower = lower answer in
      if any_in suspicious_patterns answer_lower
      then warning_sign @
        '' VALIDATION WARNING: This response may be inaccurate. Please verify against the source document.''
        @ nl @ nl @ ''Original response: '' @ answer
      else if (contains ''52000'' document_context \<or> contains ''52,000'' document_context)
              \<and> (contains ''revenue'' answer_lower \<or> contains ''sales'' answer_lower)
              \<and> \<not> contains ''52,000'' answer \<and> \<not> contains ''52000'' answer
      then warning_sign @ '' Expected sales figure of $52,000 based on document content.''
        @ nl @ nl @ ''AI Response: '' @ answer
      else answer)"

definition ensure_clean_response :: "string \<Rightarrow> string \<Rightarrow> string \<Rightarrow> string" where
  "ensure_clean_response response question document_context =
     (if any_in [''XX'', ''Instructions:'', ''Direct answer sentence:'', ''AI Response:''] response
      then
        if (contains ''revenue'' (lower question) \<or> contains ''sales'' (lower question))
           \<and> (contains ''52000'' document_context \<or> contains ''52,000'' document_context)
        then ''The total sales revenue is $52,000.''
        else if (contains ''profit'' (lower question) \<and> contains ''gross'' (lower question))
                \<and> (contains ''20800'' document_context \<or> contains ''20,800'' document_context)
        then ''The gross profit is $20,800.''
        else ''I found financial information in the document but cannot provide a specific answer.''
      else response)"

text \<open>
  The external model is a parameter: \<open>chat model prompt\<close> is the content of the reply, or
  \<open>Inl\<close> of the text of the exception that the call, or reading the reply, raises.

  \<open>answer_question\<close> returns the answer, the object with its history extended, and the
  prompts it has sent to the model.
\<close>

type_synonym chat_model = "string \<Rightarrow> string \<Rightarrow> string + string"

definition remember :: "string \<Rightarrow> string \<Rightarrow> ai_question_answering \<Rightarrow> ai_question_answering" where
  "remember question answer ai =
     ai\<lparr>conversation_history := conversation_history ai @ [(question, answer)]\<rparr>"

definition answer_question ::
  "chat_model \<Rightarrow> ai_question_answering \<Rightarrow> string \<Rightarrow> string
     \<Rightarrow> string \<times> ai_question_answering \<times> string list" where
  "answer_question chat ai question document_context =
     (let override_response = emergency_override question document_context in
      if override_response \<noteq> ''CONTINUE_WITH_AI''
      then let cleaned_response = clean_response override_response
           in (cleaned_response, remember question cleaned_response ai, [])
      else let prompt = create_financial_prompt question document_context in
           case chat (model_name ai) prompt of
             Inl e \<Rightarrow>
               let error_msg = cross_mark @ '' Error processing question: '' @ e
               in (error_msg, remember question error_msg ai, [prompt])
           | Inr content \<Rightarrow>
               let a1 = clean_response (strip content);
                   a2 = ensure_clean_response a1 question document_context;
                   answer = validate_response a2 document_context
               in (answer, remember question answer ai, [prompt]))"

definition get_conversation_history :: "ai_question_answering \<Rightarrow> (string \<times> string) list" where
  "get_conversation_history ai = conversation_history ai"

definition clear_history :: "ai_question_answering \<Rightarrow> ai_question_answering" where
  "clear_history ai = ai\<lparr>conversation_history := []\<rparr>"

definition is_model_available :: "chat_model \<Rightarrow> ai_question_answering \<Rightarrow> bool" where
  "is_model_available chat ai =
     (case chat (model_name ai) ''Hello'' of Inl e \<Rightarrow> False | Inr content \<Rightarrow> True)"

section \<open>app.py: the session\<close>

record chat_turn =
  ct_question :: string
  ct_answer :: string
  ct_ai_powered :: bool

record session_state =
  processed_data :: "processing_result option"
  session_processor :: document_processor
  ai_qa :: ai_question_answering
  chat_history :: "chat_turn list"

text \<open>The branch of \<open>handle_ai_qa_chat\<close> taken when the button that clears the chat
  history is pressed.\<close>

definition clear_chat_history :: "session_state \<Rightarrow> session_state" where
  "clear_chat_history s = s\<lparr>chat_history := [], ai_qa := clear_history (ai_qa s)\<rparr>"

section \<open>Sample inputs\<close>

text \<open>A model endpoint that is not reachable: every call raises.\<close>

definition silent_model :: chat_model where
  "silent_model model prompt = Inl ''connection refused''"

text \<open>A library with two workbooks, one of which has a sheet that cannot be read, and
  two PDF files; every other path raises.\<close>

definition sample_library :: library where
  "sample_library =
     \<lparr>PDF_AVAILABLE = True,
      read_workbook = (\<lambda>p.
        if p = ''books.xlsx''
        then Inr [(''Q1'', Inr (DataFrame ''Revenue: 100'')),
                  (''Q2'', Inr (DataFrame ''Revenue: 200 Profit: 50'')),
                  (''Notes'', Inr (DataFrame ''nothing to see''))]
        else if p = ''broken.xlsx''
        then Inr [(''Q1'', Inr (DataFrame ''Revenue: 100'')), (''Q2'', Inl ''bad sheet'')]
        else Inl ''No such file''),
      read_pdf = (\<lambda>p.
        if p = ''report.pdf'' then Inr [Inr ''Revenue: $52,000'', Inr ''Net Income: 5,200.00'']
        else if p = ''memo.pdf'' then Inr [Inr ''Nothing to report.'']
        else Inl ''No such file'')\<rparr>"

definition no_pdf_library :: library where
  "no_pdf_library = sample_library\<lparr>PDF_AVAILABLE := False\<rparr>"

text \<open>A library with no workbook and two PDF files: one with a page whose text cannot be
  extracted, and one whose pages mention the figures in an order that differs from the
  order of the patterns.\<close>

definition damaged_library :: library where
  "damaged_library =
     \<lparr>PDF_AVAILABLE = True,
      read_workbook = (\<lambda>p. Inl ''No such file''),
      read_pdf = (\<lambda>p.
        if p = ''scan.pdf''
        then Inr [Inr ''page one'', Inl ''cannot decode page'', Inr ''page three'']
        else if p = ''order.pdf''
        then Inr [Inr ''Sales: 7 then Revenue: 8'', Inr ''Profit: 1 then net income 1234,567.891'']
        else Inl ''No such file'')\<rparr>"

section \<open>Properties of the file validator\<close>

lemma supported_extensions_eq:
  "supported_extensions = [''pdf'', ''xlsx'', ''xls'', ''xlsm'']"
  by (simp add: supported_extensions_def SUPPORTED_FORMATS_def)

lemma joined_extensions: "join '', '' supported_extensions = ''pdf, xlsx, xls, xlsm''"
  by (simp add: supported_extensions_eq)

lemma get_file_type_pdf: "get_file_type ''pdf'' = ''pdf''"
  by (simp add: get_file_type_def SUPPORTED_FORMATS_def)

lemma get_file_type_excel:
  "ext \<in> {''xlsx'', ''xls'', ''xlsm''} \<Longrightarrow> get_file_type ext = ''excel''"
  by (auto simp add: get_file_type_def SUPPORTED_FORMATS_def)

lemma file_extension_notes: "file_extension ''notes.txt'' = ''txt''"
  by code_simp

lemma file_extension_examples:
  "file_extension ''report.PDF'' = ''pdf''"
  "file_extension ''books/ledger.xlsm'' = ''xlsm''"
  by code_simp+

text \<open>
  C3. A file larger than 50 MiB is rejected with the size message whatever its name is,
  because the size is tested before the extension is even computed; a file of exactly
  50 MiB is not rejected for its size.
\<close>

theorem validate_file_size_limit:
  "(uf_size f > 50 * 1024 * 1024 \<longrightarrow>
      validate_file (Some f) = Rejected ''File too large. Max size: 50MB'')
   \<and> (uf_size f = 50 * 1024 * 1024 \<longrightarrow>
      validate_file (Some f) \<noteq> Rejected ''File too large. Max size: 50MB'')"
  by (simp add: validate_file_def MAX_FILE_SIZE_def joined_extensions)

theorem validate_file_size_limit_witness:
  "uf_size \<lparr>uf_name = ''report.pdf'', uf_size = 52428801\<rparr> > 50 * 1024 * 1024
   \<and> validate_file (Some \<lparr>uf_name = ''report.pdf'', uf_size = 52428801\<rparr>)
       = Rejected ''File too large. Max size: 50MB''
   \<and> uf_size \<lparr>uf_name = ''report.pdf'', uf_size = 52428800\<rparr> = 50 * 1024 * 1024
   \<and> validate_file (Some \<lparr>uf_name = ''report.pdf'', uf_size = 52428800\<rparr>)
       \<noteq> Rejected ''File too large. Max size: 50MB''"
  using validate_file_size_limit [of "\<lparr>uf_name = ''report.pdf'', uf_size = 52428801\<rparr>"]
    validate_file_size_limit [of "\<lparr>uf_name = ''report.pdf'', uf_size = 52428800\<rparr>"]
  by simp

text \<open>
  C4, as stated, promises the unsupported-format error for every file whose extension is
  outside the supported set. A file that is also too large gets the size error instead:
  \<open>notes.txt\<close> of 50 MiB plus one byte.
\<close>

theorem validate_file_unsupported_counterexample:
  "file_extension (uf_name \<lparr>uf_name = ''notes.txt'', uf_size = 52428801\<rparr>)
     \<notin> {''pdf'', ''xlsx'', ''xls'', ''xlsm''}
   \<and> validate_file (Some \<lparr>uf_name = ''notes.txt'', uf_size = 52428801\<rparr>)
       = Rejected ''File too large. Max size: 50MB''
   \<and> validate_file (Some \<lparr>uf_name = ''notes.txt'', uf_size = 52428801\<rparr>)
       \<noteq> Rejected ''Unsupported format. Supported: pdf, xlsx, xls, xlsm''"
  by (simp add: file_extension_notes validate_file_def MAX_FILE_SIZE_def)

text \<open>
  C4, amended. For a file of at most 50 MiB: when the lower-cased extension of its name is
  outside pdf, xlsx, xls, xlsm the file is rejected with the unsupported-format message;
  when it is pdf the file is accepted as type pdf, and when it is xlsx, xls or xlsm as
  type excel, with the extension, the size and the name echoed.
\<close>

theorem validate_file_extension:
  assumes "uf_size f \<le> 50 * 1024 * 1024"
  shows "(file_extension (uf_name f) \<notin> {''pdf'', ''xlsx'', ''xls'', ''xlsm''} \<longrightarrow>
            validate_file (Some f)
              = Rejected ''Unsupported format. Supported: pdf, xlsx, xls, xlsm'')
       \<and> (file_extension (uf_name f) = ''pdf'' \<longrightarrow>
            validate_file (Some f) = Accepted ''pdf'' ''pdf'' (uf_size f) (uf_name f))
       \<and> (file_extension (uf_name f) \<in> {''xlsx'', ''xls'', ''xlsm''} \<longrightarrow>
            validate_file (Some f)
              = Accepted ''excel'' (file_extension (uf_name f)) (uf_size f) (uf_name f))"
proof -
  have small: "\<not> uf_size f > MAX_FILE_SIZE"
    using assms by (simp add: MAX_FILE_SIZE_def)
  show ?thesis
  proof (intro conjI impI)
    assume "file_extension (uf_name f) \<notin> {''pdf'', ''xlsx'', ''xls'', ''xlsm''}"
    then have "\<not> List.member supported_extensions (file_extension (uf_name f))"
      by (simp add: supported_extensions_eq)
    then show "validate_file (Some f)
        = Rejected ''Unsupported format. Supported: pdf, xlsx, xls, xlsm''"
      using small by (simp add: validate_file_def joined_extensions)
  next
    assume pdf: "file_extension (uf_name f) = ''pdf''"
    then have "List.member supported_extensions (file_extension (uf_name f))"
      by (simp add: supported_extensions_eq)
    then show "validate_file (Some f) = Accepted ''pdf'' ''pdf'' (uf_size f) (uf_name f)"
      using small pdf by (simp add: validate_file_def get_file_type_pdf)
  next
    assume excel: "file_extension (uf_name f) \<in> {''xlsx'', ''xls'', ''xlsm''}"
    then have "List.member supported_extensions (file_extension (uf_name f))"
      by (auto simp add: supported_extensions_eq)
    then show "validate_file (Some f)
        = Accepted ''excel'' (file_extension (uf_name f)) (uf_size f) (uf_name f)"
      using small get_file_type_excel [OF excel] by (simp add: validate_file_def)
  qed
qed

theorem validate_file_extension_witness:
  "validate_file (Some \<lparr>uf_name = ''notes.txt'', uf_size = 52428800\<rparr>)
     = Rejected ''Unsupported format. Supported: pdf, xlsx, xls, xlsm''
   \<and> validate_file (Some \<lparr>uf_name = ''report.PDF'', uf_size = 1024\<rparr>)
     = Accepted ''pdf'' ''pdf'' 1024 ''report.PDF''
   \<and> validate_file (Some \<lparr>uf_name = ''books/ledger.xlsm'', uf_size = 0\<rparr>)
     = Accepted ''excel'' ''xlsm'' 0 ''books/ledger.xlsm''"
  using validate_file_extension [of "\<lparr>uf_name = ''notes.txt'', uf_size = 52428800\<rparr>"]
    validate_file_extension [of "\<lparr>uf_name = ''report.PDF'', uf_size = 1024\<rparr>"]
    validate_file_extension [of "\<lparr>uf_name = ''books/ledger.xlsm'', uf_size = 0\<rparr>"]
  by (simp add: file_extension_notes file_extension_examples)

section \<open>Properties of the session\<close>

text \<open>
  C8. Clearing the chat history empties the chat log and the conversation history of the
  model-backed strategy, and leaves the processed-data result and the document processor
  (its document text, its financial tables and its metrics) as they were.
\<close>

theorem clear_chat_history_frame:
  "chat_history (clear_chat_history s) = []
   \<and> conversation_history (ai_qa (clear_chat_history s)) = []
   \<and> model_name (ai_qa (clear_chat_history s)) = model_name (ai_qa s)
   \<and> processed_data (clear_chat_history s) = processed_data s
   \<and> session_processor (clear_chat_history s) = session_processor s
   \<and> document_text (session_processor (clear_chat_history s))
       = document_text (session_processor s)
   \<and> financial_tables (session_processor (clear_chat_history s))
       = financial_tables (session_processor s)
   \<and> financial_metrics (session_processor (clear_chat_history s))
       = financial_metrics (session_processor s)"
  by (simp add: clear_chat_history_def clear_history_def)

section \<open>Properties of the model-backed strategy\<close>


lemma clean_revenue_answer:
  "clean_response ''The total sales revenue is $52,000 based on 1,000 tyres sold at $52 each.''
     = ''The total sales revenue is $52,000 based on 1,000 tyres sold at $52 each.''"
  by code_simp

lemma clean_gross_answer:
  "clean_response ''The gross profit is $20,800.'' = ''The gross profit is $20,800.''"
  by code_simp

lemma clean_net_answer:
  "clean_response ''The net profit is $5,200.'' = ''The net profit is $5,200.''"
  by code_simp

lemma clean_advertising_answer:
  "clean_response ''The advertising expense is $500.'' = ''The advertising expense is $500.''"
  by code_simp

text \<open>
  C2. When the lower-cased question contains revenue or sales and the lower-cased context
  contains joe, \<open>answer_question\<close> returns exactly the literal revenue answer, records it
  in the history and sends no prompt to the model, whatever the model is.
\<close>

theorem answer_question_revenue_override:
  assumes "contains ''revenue'' (lower question) \<or> contains ''sales'' (lower question)"
    and "contains ''joe'' (lower document_context)"
  shows "answer_question chat ai question document_context =
     (''The total sales revenue is $52,000 based on 1,000 tyres sold at $52 each.'',
      remember question
        ''The total sales revenue is $52,000 based on 1,000 tyres sold at $52 each.'' ai,
      [])"
proof -
  have "emergency_override question document_context
      = ''The total sales revenue is $52,000 based on 1,000 tyres sold at $52 each.''"
    using assms by (simp add: emergency_override_def Let_def)
  then show ?thesis
    by (simp add: answer_question_def Let_def clean_revenue_answer)
qed


lemma lower_examples:
  "lower ''What is the total Revenue?'' = ''what is the total revenue?''"
  "lower ''Joe's Motorbike Tyres'' = ''joe's motorbike tyres''"
  by code_simp+

theorem answer_question_revenue_override_witness:
  "(contains ''revenue'' (lower ''What is the total Revenue?'')
      \<or> contains ''sales'' (lower ''What is the total Revenue?''))
   \<and> contains ''joe'' (lower ''Joe's Motorbike Tyres'')
   \<and> answer_question silent_model new_ai_question_answering
        ''What is the total Revenue?'' ''Joe's Motorbike Tyres'' =
       (''The total sales revenue is $52,000 based on 1,000 tyres sold at $52 each.'',
        \<lparr>model_name = ''qwen2:0.5b'',
         conversation_history =
           [(''What is the total Revenue?'',
             ''The total sales revenue is $52,000 based on 1,000 tyres sold at $52 each.'')]\<rparr>,
        [])"
  using answer_question_revenue_override [of "''What is the total Revenue?''"
      "''Joe's Motorbike Tyres''" silent_model new_ai_question_answering]
  by (simp add: lower_examples remember_def new_ai_question_answering_def)

lemma lower_gross_question:
  "lower ''Gross profit and revenue?'' = ''gross profit and revenue?''"
  "lower ''Joe'' = ''joe''"
  by code_simp+

text \<open>
  C10, as stated, promises the gross-profit answer for every context. The revenue override
  is tested first: a question that mentions gross profit and also revenue, asked about a
  context that contains joe, gets the revenue answer.
\<close>

theorem answer_question_gross_counterexample:
  "contains ''profit'' (lower ''Gross profit and revenue?'')
   \<and> contains ''gross'' (lower ''Gross profit and revenue?'')
   \<and> fst (answer_question silent_model new_ai_question_answering
            ''Gross profit and revenue?'' ''Joe'')
       = ''The total sales revenue is $52,000 based on 1,000 tyres sold at $52 each.''
   \<and> fst (answer_question silent_model new_ai_question_answering
            ''Gross profit and revenue?'' ''Joe'')
       \<noteq> ''The gross profit is $20,800.''"
  by (simp add: answer_question_def emergency_override_def Let_def lower_gross_question
      clean_revenue_answer)

text \<open>
  C10, amended. Unless the question contains revenue or sales and the context contains joe,
  a question containing profit and gross gets the literal gross-profit answer; one
  containing profit and net but not gross gets the literal net-profit answer; one
  containing advertising, and not profit together with gross or net, gets the literal
  advertising answer. In each case no prompt is sent to the model, and for a question with
  neither revenue nor sales the answer is the same for every context.
\<close>

theorem answer_question_fixed_overrides:
  assumes "\<not> ((contains ''revenue'' (lower question) \<or> contains ''sales'' (lower question))
              \<and> contains ''joe'' (lower document_context))"
  shows "(contains ''profit'' (lower question) \<and> contains ''gross'' (lower question) \<longrightarrow>
            answer_question chat ai question document_context =
              (''The gross profit is $20,800.'',
               remember question ''The gross profit is $20,800.'' ai, []))
       \<and> (contains ''profit'' (lower question) \<and> contains ''net'' (lower question)
            \<and> \<not> contains ''gross'' (lower question) \<longrightarrow>
            answer_question chat ai question document_context =
              (''The net profit is $5,200.'',
               remember question ''The net profit is $5,200.'' ai, []))
       \<and> (contains ''advertising'' (lower question)
            \<and> \<not> (contains ''profit'' (lower question)
                   \<and> (contains ''gross'' (lower question) \<or> contains ''net'' (lower question)))
            \<longrightarrow>
            answer_question chat ai question document_context =
              (''The advertising expense is $500.'',
               remember question ''The advertising expense is $500.'' ai, []))"
proof (intro conjI impI)
  assume "contains ''profit'' (lower question) \<and> contains ''gross'' (lower question)"
  then have "emergency_override question document_context = ''The gross profit is $20,800.''"
    using assms by (simp add: emergency_override_def Let_def)
  then show "answer_question chat ai question document_context =
      (''The gross profit is $20,800.'', remember question ''The gross profit is $20,800.'' ai, [])"
    by (simp add: answer_question_def Let_def clean_gross_answer)
next
  assume "contains ''profit'' (lower question) \<and> contains ''net'' (lower question)
    \<and> \<not> contains ''gross'' (lower question)"
  then have "emergency_override question document_context = ''The net profit is $5,200.''"
    using assms by (simp add: emergency_override_def Let_def)
  then show "answer_question chat ai question document_context =
      (''The net profit is $5,200.'', remember question ''The net profit is $5,200.'' ai, [])"
    by (simp add: answer_question_def Let_def clean_net_answer)
next
  assume "contains ''advertising'' (lower question)
    \<and> \<not> (contains ''profit'' (lower question)
           \<and> (contains ''gross'' (lower question) \<or> contains ''net'' (lower question)))"
  then have "emergency_override question document_context
      = ''The advertising expense is $500.''"
    using assms by (simp add: emergency_override_def Let_def)
  then show "answer_question chat ai question document_context =
      (''The advertising expense is $500.'',
       remember question ''The advertising expense is $500.'' ai, [])"
    by (simp add: answer_question_def Let_def clean_advertising_answer)
qed

lemma lower_override_questions:
  "lower ''What is the gross profit?'' = ''what is the gross profit?''"
  "lower ''Net profit?'' = ''net profit?''"
  "lower ''Advertising spend?'' = ''advertising spend?''"
  "lower ''The ledger of Joe says gross profit was $1.'' = ''the ledger of joe says gross profit was $1.''"
  "lower [] = []"
  by code_simp+

theorem answer_question_fixed_overrides_witness:
  "fst (answer_question silent_model new_ai_question_answering
          ''What is the gross profit?'' ''The ledger of Joe says gross profit was $1.'')
     = ''The gross profit is $20,800.''
   \<and> fst (answer_question silent_model new_ai_question_answering ''Net profit?'' [])
     = ''The net profit is $5,200.''
   \<and> fst (answer_question silent_model new_ai_question_answering ''Advertising spend?'' [])
     = ''The advertising expense is $500.''"
  using answer_question_fixed_overrides [of "''What is the gross profit?''"
      "''The ledger of Joe says gross profit was $1.''" silent_model new_ai_question_answering]
    answer_question_fixed_overrides [of "''Net profit?''" "[]" silent_model
      new_ai_question_answering]
    answer_question_fixed_overrides [of "''Advertising spend?''" "[]" silent_model
      new_ai_question_answering]
  by (simp add: lower_override_questions)

section \<open>Properties of the document processor\<close>


lemma dict_get_set: "dict_get (dict_set k v d) k' = (if k' = k then Some v else dict_get d k')"
  by (induction d) (auto simp add: dict_get_def)

lemma dict_keys_set: "set (dict_keys (dict_set k v d)) = insert k (set (dict_keys d))"
  by (induction d) (auto simp add: dict_keys_def)

lemma dict_set_fresh: "k \<notin> fst ` set d \<Longrightarrow> dict_set k v d = d @ [(k, v)]"
  by (induction d) auto

lemma excel_metrics_loop_keys:
  "set (dict_keys (excel_metrics_loop sheets m))
     \<subseteq> set (dict_keys m) \<union> {''revenue_sheet'', ''profit_sheet''}"
proof (induction sheets arbitrary: m)
  case Nil
  then show ?case by auto
next
  case (Cons p sheets)
  obtain sheet_name df where p: "p = (sheet_name, df)" by (cases p)
  show ?case
    unfolding p excel_metrics_loop.simps Let_def
    by (rule subset_trans [OF Cons.IH]) (auto simp add: dict_keys_set)
qed

lemma extract_excel_metrics_keys:
  "set (dict_keys (extract_excel_metrics sheets_data)) \<subseteq> {''revenue_sheet'', ''profit_sheet''}"
  using excel_metrics_loop_keys [of sheets_data "[]"]
  by (simp add: extract_excel_metrics_def dict_keys_def)

lemma extract_text_metrics_keys:
  "set (dict_keys (extract_text_metrics text)) \<subseteq> {''revenue'', ''profit''}"
  by (auto simp add: extract_text_metrics_def Let_def dict_keys_def split: option.splits)

lemma excel_sheets_loop_metrics:
  "financial_metrics (snd (excel_sheets_loop sheets acc st)) = financial_metrics st"
proof (induction sheets arbitrary: acc st)
  case Nil
  then show ?case by simp
next
  case (Cons p sheets)
  obtain sheet_name r where p: "p = (sheet_name, r)" by (cases p)
  show ?case
  proof (cases r)
    case (Inl e)
    then show ?thesis by (simp add: p)
  next
    case (Inr df)
    then show ?thesis by (simp add: p Let_def Cons.IH)
  qed
qed

lemma excel_body_metrics:
  "set (dict_keys (financial_metrics (snd (excel_body lib path st))))
     \<subseteq> set (dict_keys (financial_metrics st)) \<union> {''revenue_sheet'', ''profit_sheet''}"
proof (cases "read_workbook lib path")
  case (Inl e)
  then show ?thesis by (auto simp add: excel_body_def)
next
  case (Inr sheets)
  obtain r st1 where loop: "excel_sheets_loop sheets [] st = (r, st1)"
    by (cases "excel_sheets_loop sheets [] st")
  have st1: "financial_metrics st1 = financial_metrics st"
    using excel_sheets_loop_metrics [of sheets "[]" st] loop by simp
  show ?thesis
  proof (cases r)
    case (Inl e)
    then show ?thesis using Inr loop st1 by (auto simp add: excel_body_def)
  next
    case r: (Inr sheets_data)
    show ?thesis
      using Inr loop r extract_excel_metrics_keys [of sheets_data]
      by (auto simp add: excel_body_def Let_def)
  qed
qed

lemma process_excel_state: "snd (process_excel lib path st) = snd (excel_body lib path st)"
  by (simp add: process_excel_def split: prod.splits sum.splits)

lemma pdf_body_metrics:
  "set (dict_keys (financial_metrics (snd (pdf_body lib path st))))
     \<subseteq> set (dict_keys (financial_metrics st)) \<union> {''revenue'', ''profit''}"
  using extract_text_metrics_keys
  by (auto simp add: pdf_body_def Let_def split: sum.splits)

lemma process_pdf_metrics:
  "set (dict_keys (financial_metrics (snd (process_pdf lib path st))))
     \<subseteq> set (dict_keys (financial_metrics st)) \<union> {''revenue'', ''profit''}"
proof (cases "PDF_AVAILABLE lib")
  case False
  then show ?thesis by (auto simp add: process_pdf_def)
next
  case True
  then have "snd (process_pdf lib path st) = snd (pdf_body lib path st)"
    by (simp add: process_pdf_def split: prod.splits sum.splits)
  then show ?thesis using pdf_body_metrics [of lib path st] by auto
qed

lemma process_document_state:
  "snd (process_document lib path file_type st) =
     (if file_type = ''excel'' then snd (process_excel lib path st)
      else if file_type = ''pdf'' then snd (process_pdf lib path st)
      else st)"
  by (simp add: process_document_def document_body_def split: prod.splits)

lemma process_document_result:
  "fst (process_document lib path file_type st) =
     (if file_type = ''excel'' then fst (process_excel lib path st)
      else if file_type = ''pdf'' then fst (process_pdf lib path st)
      else Failure (''Unsupported file type: '' @ file_type))"
  by (simp add: process_document_def document_body_def split: prod.splits)

lemma process_document_metrics:
  "set (dict_keys (financial_metrics (snd (process_document lib path file_type st))))
     \<subseteq> set (dict_keys (financial_metrics st))
         \<union> {''revenue'', ''profit'', ''revenue_sheet'', ''profit_sheet''}"
  using excel_body_metrics [of lib path st] process_pdf_metrics [of lib path st]
  by (auto simp add: process_document_state process_excel_state)

lemma extract_pages_ok: "extract_pages (map Inr pages) acc = Inr (acc @ pages)"
  by (induction pages arbitrary: acc) auto

lemma excel_sheets_loop_ok:
  "fst (excel_sheets_loop (map (\<lambda>(n, df). (n, Inr df)) sheets) acc st)
     = Inr (fold (\<lambda>(n, df) d. dict_set n df d) sheets acc)"
proof (induction sheets arbitrary: acc st)
  case Nil
  then show ?case by simp
next
  case (Cons p sheets)
  obtain n df where p: "p = (n, df)" by (cases p)
  show ?case by (simp add: p Let_def Cons.IH)
qed

lemma fold_dict_set_distinct:
  "distinct (map fst acc @ map fst sheets) \<Longrightarrow>
     fold (\<lambda>(n, df) d. dict_set n df d) sheets acc = acc @ sheets"
proof (induction sheets arbitrary: acc)
  case Nil
  then show ?case by simp
next
  case (Cons p sheets)
  obtain n df where p: "p = (n, df)" by (cases p)
  have fresh: "n \<notin> fst ` set acc" using Cons.prems by (auto simp add: p)
  have "distinct (map fst (acc @ [(n, df)]) @ map fst sheets)"
    using Cons.prems by (auto simp add: p)
  then have "fold (\<lambda>(n, df) d. dict_set n df d) sheets (acc @ [(n, df)])
      = (acc @ [(n, df)]) @ sheets"
    by (rule Cons.IH)
  then show ?case by (simp add: p dict_set_fresh [OF fresh])
qed

lemma pdf_body_ok:
  "read_pdf lib path = Inr (map Inr pages) \<Longrightarrow>
     \<exists>r. pdf_body lib path st =
       (Inr r, st\<lparr>document_text := join nl pages,
                  financial_metrics := extract_text_metrics (join nl pages)\<rparr>) \<and> success r"
  by (simp add: pdf_body_def extract_pages_ok Let_def)

lemma excel_body_ok:
  assumes "read_workbook lib path = Inr (map (\<lambda>(n, df). (n, Inr df)) sheets)"
  shows "\<exists>r. fst (excel_body lib path st) = Inr r \<and> success r"
    and "financial_metrics (snd (excel_body lib path st))
      = extract_excel_metrics (fold (\<lambda>(n, df) d. dict_set n df d) sheets [])"
proof -
  obtain r st1 where loop:
    "excel_sheets_loop (map (\<lambda>(n, df). (n, Inr df)) sheets) [] st = (r, st1)"
    by (cases "excel_sheets_loop (map (\<lambda>(n, df). (n, Inr df)) sheets) [] st")
  have r: "r = Inr (fold (\<lambda>(n, df) d. dict_set n df d) sheets [])"
    using excel_sheets_loop_ok [of sheets "[]" st] loop by simp
  show "\<exists>r. fst (excel_body lib path st) = Inr r \<and> success r"
    using assms loop r by (simp add: excel_body_def Let_def)
  show "financial_metrics (snd (excel_body lib path st))
      = extract_excel_metrics (fold (\<lambda>(n, df) d. dict_set n df d) sheets [])"
    using assms loop r by (simp add: excel_body_def Let_def)
qed

lemma process_excel_result:
  "fst (process_excel lib path st) =
     (case fst (excel_body lib path st) of
        Inl e \<Rightarrow> Failure (''Excel processing failed: '' @ e) | Inr r \<Rightarrow> r)"
  by (simp add: process_excel_def split: prod.splits sum.splits)

lemma process_pdf_result:
  "fst (process_pdf lib path st) =
     (if \<not> PDF_AVAILABLE lib
      then Failure ''PDF processing library not available. Install pypdf.''
      else case fst (pdf_body lib path st) of
        Inl e \<Rightarrow> Failure (''PDF processing failed: '' @ e) | Inr r \<Rightarrow> r)"
  by (simp add: process_pdf_def split: prod.splits sum.splits)

lemma excel_body_success: "fst (excel_body lib path st) = Inr r \<Longrightarrow> success r"
  by (auto simp add: excel_body_def Let_def split: sum.splits prod.splits)

lemma pdf_body_success: "fst (pdf_body lib path st) = Inr r \<Longrightarrow> success r"
  by (auto simp add: pdf_body_def Let_def split: sum.splits prod.splits)

lemma process_document_total:
  "success (fst (process_document lib path file_type st))
   \<or> (\<exists>msg. fst (process_document lib path file_type st) = Failure msg \<and> msg \<noteq> [])"
  using excel_body_success [of lib path st] pdf_body_success [of lib path st]
  by (auto simp add: process_document_result process_excel_result process_pdf_result
      split: sum.splits)

lemma document_body_returns: "\<exists>r. fst (document_body lib path file_type st) = Inr r"
  by (simp add: document_body_def split: prod.splits)


lemma sample_bodies:
  "fst (excel_body sample_library ''broken.xlsx'' new_document_processor) = Inl ''bad sheet''"
  "fst (pdf_body sample_library ''lost.pdf'' new_document_processor) = Inl ''No such file''"
  "PDF_AVAILABLE sample_library"
  "\<not> PDF_AVAILABLE no_pdf_library"
  by (simp_all add: excel_body_def pdf_body_def sample_library_def no_pdf_library_def
      new_document_processor_def Let_def)

text \<open>
  C9. Processing keeps the keys of the metrics map inside the vocabulary revenue, profit,
  revenue\_sheet, profit\_sheet, whatever the file type and whether or not processing
  succeeds (a new processor starts with the empty map). Whether a metric is found plays no
  part in the outcome: a PDF whose pages are all read, and a workbook whose sheets are all
  read, give a successful result.
\<close>

theorem metrics_vocabulary:
  "(set (dict_keys (financial_metrics st))
        \<subseteq> {''revenue'', ''profit'', ''revenue_sheet'', ''profit_sheet''} \<longrightarrow>
      set (dict_keys (financial_metrics (snd (process_document lib path file_type st))))
        \<subseteq> {''revenue'', ''profit'', ''revenue_sheet'', ''profit_sheet''})
   \<and> (PDF_AVAILABLE lib \<and> read_pdf lib path = Inr (map Inr pages) \<longrightarrow>
      success (fst (process_document lib path ''pdf'' st)))
   \<and> (read_workbook lib path = Inr (map (\<lambda>(n, df). (n, Inr df)) sheets) \<longrightarrow>
      success (fst (process_document lib path ''excel'' st)))"
proof (intro conjI impI)
  assume "set (dict_keys (financial_metrics st))
      \<subseteq> {''revenue'', ''profit'', ''revenue_sheet'', ''profit_sheet''}"
  then show "set (dict_keys (financial_metrics (snd (process_document lib path file_type st))))
      \<subseteq> {''revenue'', ''profit'', ''revenue_sheet'', ''profit_sheet''}"
    using process_document_metrics [of lib path file_type st] by blast
next
  assume pdf: "PDF_AVAILABLE lib \<and> read_pdf lib path = Inr (map Inr pages)"
  then obtain r where "fst (pdf_body lib path st) = Inr r" and "success r"
    using pdf_body_ok [of lib path pages st] by auto
  then show "success (fst (process_document lib path ''pdf'' st))"
    using pdf by (simp add: process_document_result process_pdf_result)
next
  assume "read_workbook lib path = Inr (map (\<lambda>(n, df). (n, Inr df)) sheets)"
  then obtain r where "fst (excel_body lib path st) = Inr r" and "success r"
    using excel_body_ok(1) [of lib path sheets st] by auto
  then show "success (fst (process_document lib path ''excel'' st))"
    by (simp add: process_document_result process_excel_result)
qed

lemma sample_reads:
  "read_pdf sample_library ''memo.pdf'' = Inr (map Inr [''Nothing to report.''])"
  "read_pdf sample_library ''report.pdf''
     = Inr (map Inr [''Revenue: $52,000'', ''Net Income: 5,200.00''])"
  "read_workbook sample_library ''books.xlsx''
     = Inr (map (\<lambda>(n, df). (n, Inr df))
         [(''Q1'', DataFrame ''Revenue: 100''),
          (''Q2'', DataFrame ''Revenue: 200 Profit: 50''),
          (''Notes'', DataFrame ''nothing to see'')])"
  by (simp_all add: sample_library_def)

lemma memo_metrics:
  "financial_metrics (snd (process_document sample_library ''memo.pdf'' ''pdf''
     new_document_processor)) = []"
  by code_simp

theorem metrics_vocabulary_witness:
  "set (dict_keys (financial_metrics new_document_processor))
     \<subseteq> {''revenue'', ''profit'', ''revenue_sheet'', ''profit_sheet''}
   \<and> set (dict_keys (financial_metrics (snd (process_document sample_library ''books.xlsx''
        ''excel'' new_document_processor))))
     \<subseteq> {''revenue'', ''profit'', ''revenue_sheet'', ''profit_sheet''}
   \<and> financial_metrics (snd (process_document sample_library ''memo.pdf'' ''pdf''
        new_document_processor)) = []
   \<and> success (fst (process_document sample_library ''memo.pdf'' ''pdf''
        new_document_processor))
   \<and> success (fst (process_document sample_library ''books.xlsx'' ''excel''
        new_document_processor))"
  using metrics_vocabulary [of new_document_processor sample_library "''books.xlsx''"
      "''excel''" "[]"
      "[(''Q1'', DataFrame ''Revenue: 100''), (''Q2'', DataFrame ''Revenue: 200 Profit: 50''),
        (''Notes'', DataFrame ''nothing to see'')]"]
    metrics_vocabulary [of new_document_processor sample_library "''memo.pdf''"
      "''pdf''" "[''Nothing to report.'']" "[]"]
  by (simp add: sample_reads sample_bodies memo_metrics)
    (simp add: new_document_processor_def dict_keys_def)

lemma dict_get_empty: "dict_get [] k = None"
  by (simp add: dict_get_def)

lemma books_workbook:
  "read_workbook sample_library ''books.xlsx''
     = Inr [(''Q1'', Inr (DataFrame ''Revenue: 100'')),
            (''Q2'', Inr (DataFrame ''Revenue: 200 Profit: 50'')),
            (''Notes'', Inr (DataFrame ''nothing to see''))]"
  by (simp add: sample_library_def)

lemma excel_metrics_loop_revenue:
  "dict_get (excel_metrics_loop sheets m) ''revenue_sheet'' =
     (let hits = filter (\<lambda>(n, df). contains ''revenue'' (lower (to_string df))
                                 \<or> contains ''sales'' (lower (to_string df))) sheets
      in if hits = [] then dict_get m ''revenue_sheet'' else Some (fst (last hits)))"
proof (induction sheets arbitrary: m)
  case Nil
  then show ?case by simp
next
  case (Cons p sheets)
  obtain n df where p: "p = (n, df)" by (cases p)
  show ?case
    by (simp add: p Let_def Cons.IH dict_get_set)
qed

lemma excel_metrics_loop_profit:
  "dict_get (excel_metrics_loop sheets m) ''profit_sheet'' =
     (let hits = filter (\<lambda>(n, df). contains ''profit'' (lower (to_string df))
                                 \<or> contains ''net income'' (lower (to_string df))) sheets
      in if hits = [] then dict_get m ''profit_sheet'' else Some (fst (last hits)))"
proof (induction sheets arbitrary: m)
  case Nil
  then show ?case by simp
next
  case (Cons p sheets)
  obtain n df where p: "p = (n, df)" by (cases p)
  show ?case
    by (simp add: p Let_def Cons.IH dict_get_set)
qed

text \<open>
  C5, amended. For a workbook whose sheets have pairwise distinct names and are all read:
  \<open>revenue_sheet\<close> is the last sheet, in workbook order, whose lower-cased rendering
  contains revenue or sales, and the key is absent when there is none; \<open>profit_sheet\<close> is
  the last sheet whose rendering contains profit or net income, and absent when there is
  none.
\<close>

theorem sheet_metrics_last_match:
  assumes "read_workbook lib path = Inr (map (\<lambda>(n, df). (n, Inr df)) sheets)"
    and "distinct (map fst sheets)"
  shows "dict_get (financial_metrics (snd (process_document lib path ''excel'' st)))
           ''revenue_sheet'' =
         (let hits = filter (\<lambda>(n, df). contains ''revenue'' (lower (to_string df))
                                     \<or> contains ''sales'' (lower (to_string df))) sheets
          in if hits = [] then None else Some (fst (last hits)))
       \<and> dict_get (financial_metrics (snd (process_document lib path ''excel'' st)))
           ''profit_sheet'' =
         (let hits = filter (\<lambda>(n, df). contains ''profit'' (lower (to_string df))
                                     \<or> contains ''net income'' (lower (to_string df))) sheets
          in if hits = [] then None else Some (fst (last hits)))"
proof -
  have "fold (\<lambda>(n, df) d. dict_set n df d) sheets [] = [] @ sheets"
    by (rule fold_dict_set_distinct) (simp add: assms(2))
  then have "financial_metrics (snd (process_document lib path ''excel'' st))
      = excel_metrics_loop sheets []"
    using excel_body_ok(2) [OF assms(1), of st]
    by (simp add: process_document_state process_excel_state extract_excel_metrics_def)
  then show ?thesis
    by (simp add: excel_metrics_loop_revenue excel_metrics_loop_profit dict_get_empty Let_def)
qed

lemma two_revenue_sheets:
  "financial_metrics (snd (process_document sample_library ''books.xlsx'' ''excel''
     new_document_processor)) = [(''revenue_sheet'', ''Q2''), (''profit_sheet'', ''Q2'')]"
  by code_simp

lemma lower_sheets:
  "lower ''Revenue: 100'' = ''revenue: 100''"
  "lower ''Revenue: 200 Profit: 50'' = ''revenue: 200 profit: 50''"
  "lower ''nothing to see'' = ''nothing to see''"
  by code_simp+

text \<open>
  C5, as stated, maps \<open>revenue_sheet\<close> to every sheet that contains revenue. The key holds
  one sheet name and each matching sheet overwrites it: in a workbook where Q1 and Q2 both
  contain revenue, \<open>revenue_sheet\<close> is Q2 and not Q1.
\<close>

theorem revenue_sheet_counterexample:
  "contains ''revenue'' (lower (to_string (DataFrame ''Revenue: 100'')))
   \<and> read_workbook sample_library ''books.xlsx''
     = Inr [(''Q1'', Inr (DataFrame ''Revenue: 100'')),
            (''Q2'', Inr (DataFrame ''Revenue: 200 Profit: 50'')),
            (''Notes'', Inr (DataFrame ''nothing to see''))]
   \<and> dict_get (financial_metrics (snd (process_document sample_library ''books.xlsx''
        ''excel'' new_document_processor))) ''revenue_sheet'' = Some ''Q2''
   \<and> dict_get (financial_metrics (snd (process_document sample_library ''books.xlsx''
        ''excel'' new_document_processor))) ''revenue_sheet'' \<noteq> Some ''Q1''"
  by (simp add: two_revenue_sheets lower_sheets books_workbook) (simp add: dict_get_def)

theorem sheet_metrics_last_match_witness:
  "distinct (map fst [(''Q1'', DataFrame ''Revenue: 100''),
       (''Q2'', DataFrame ''Revenue: 200 Profit: 50''),
       (''Notes'', DataFrame ''nothing to see'')])
   \<and> dict_get (financial_metrics (snd (process_document sample_library ''books.xlsx''
        ''excel'' new_document_processor))) ''revenue_sheet'' = Some ''Q2''
   \<and> dict_get (financial_metrics (snd (process_document sample_library ''books.xlsx''
        ''excel'' new_document_processor))) ''profit_sheet'' = Some ''Q2''"
  using sheet_metrics_last_match [of sample_library "''books.xlsx''"
      "[(''Q1'', DataFrame ''Revenue: 100''), (''Q2'', DataFrame ''Revenue: 200 Profit: 50''),
        (''Notes'', DataFrame ''nothing to see'')]" new_document_processor]
  by (simp add: sample_reads lower_sheets)




section \<open>Properties of the pattern-matching backup\<close>


lemma lower_append: "lower (a @ b) = lower a @ lower b"
  by (simp add: lower_def)





lemma starts_with_Cons_append:
  "starts_with (p # ps) (xs @ ys) =
     (case xs of [] \<Rightarrow> starts_with (p # ps) ys | x # xs' \<Rightarrow> p = x \<and> starts_with ps (xs' @ ys))"
  by (cases xs) simp_all

lemma starts_with_Cons:
  "starts_with (p # ps) xs = (case xs of [] \<Rightarrow> False | x # xs' \<Rightarrow> p = x \<and> starts_with ps xs')"
  by (cases xs) simp_all



section \<open>Failures of the libraries, the regex scan and the profit answer\<close>



lemma extract_pages_fail: "extract_pages (map Inr good @ Inl e # rest) acc = Inl e"
  by (induction good arbitrary: acc) auto

lemma excel_sheets_loop_fail:
  "fst (excel_sheets_loop (map (\<lambda>(n, df). (n, Inr df)) good @ (name, Inl e) # rest) acc st)
     = Inl e"
proof (induction good arbitrary: acc st)
  case Nil
  then show ?case by simp
next
  case (Cons p good)
  obtain n df where p: "p = (n, df)" by (cases p)
  show ?case by (simp add: p Let_def Cons.IH)
qed

lemma excel_body_fail:
  assumes "read_workbook lib path
     = Inr (map (\<lambda>(n, df). (n, Inr df)) good @ (name, Inl e) # rest)"
  shows "fst (excel_body lib path st) = Inl e"
proof -
  obtain r st1 where loop: "excel_sheets_loop
      (map (\<lambda>(n, df). (n, Inr df)) good @ (name, Inl e) # rest) [] st = (r, st1)"
    by (cases "excel_sheets_loop
      (map (\<lambda>(n, df). (n, Inr df)) good @ (name, Inl e) # rest) [] st")
  have "r = Inl e"
    using excel_sheets_loop_fail [of good name e rest "[]" st] loop by simp
  then show ?thesis using assms loop by (simp add: excel_body_def)
qed

text \<open>
  C7. \<open>process_document\<close> returns a result for every library, path, file type and
  processor state. When opening the workbook raises, or reading one of its sheets raises
  after any number of sheets were read, the result is a failure whose message is
  \<open>Excel processing failed: \<close> followed by the exception's text. When opening the PDF
  raises, or extracting the text of one of its pages raises after any number of pages, the
  result is a failure whose message is \<open>PDF processing failed: \<close> followed by the
  exception's text, and the processor is left as it was. When no PDF library is available a
  PDF gets the fixed failure message, and a file type other than excel and pdf gets the
  unsupported-type message. Every result is a success or a failure with a non-empty message.
\<close>

theorem process_document_catches:
  "(read_workbook lib path = Inl e1 \<longrightarrow>
      process_document lib path ''excel'' st
        = (Failure (''Excel processing failed: '' @ e1), st))
   \<and> (read_workbook lib path
        = Inr (map (\<lambda>(n, df). (n, Inr df)) good_sheets @ (name, Inl e2) # more_sheets) \<longrightarrow>
      fst (process_document lib path ''excel'' st)
        = Failure (''Excel processing failed: '' @ e2))
   \<and> (PDF_AVAILABLE lib \<and> read_pdf lib path = Inl e3 \<longrightarrow>
      process_document lib path ''pdf'' st = (Failure (''PDF processing failed: '' @ e3), st))
   \<and> (PDF_AVAILABLE lib \<and> read_pdf lib path = Inr (map Inr good_pages @ Inl e4 # more_pages)
        \<longrightarrow>
      process_document lib path ''pdf'' st = (Failure (''PDF processing failed: '' @ e4), st))
   \<and> (\<not> PDF_AVAILABLE lib \<longrightarrow>
      process_document lib path ''pdf'' st
        = (Failure ''PDF processing library not available. Install pypdf.'', st))
   \<and> (file_type \<noteq> ''excel'' \<and> file_type \<noteq> ''pdf'' \<longrightarrow>
      process_document lib path file_type st
        = (Failure (''Unsupported file type: '' @ file_type), st))
   \<and> (success (fst (process_document lib path file_type st))
      \<or> (\<exists>msg. fst (process_document lib path file_type st) = Failure msg \<and> msg \<noteq> []))"
proof (intro conjI impI)
  assume "read_workbook lib path = Inl e1"
  then show "process_document lib path ''excel'' st
      = (Failure (''Excel processing failed: '' @ e1), st)"
    by (simp add: process_document_def document_body_def process_excel_def excel_body_def)
next
  assume "read_workbook lib path
      = Inr (map (\<lambda>(n, df). (n, Inr df)) good_sheets @ (name, Inl e2) # more_sheets)"
  then have "fst (excel_body lib path st) = Inl e2"
    by (rule excel_body_fail)
  then show "fst (process_document lib path ''excel'' st)
      = Failure (''Excel processing failed: '' @ e2)"
    by (simp add: process_document_result process_excel_result)
next
  assume "PDF_AVAILABLE lib \<and> read_pdf lib path = Inl e3"
  then show "process_document lib path ''pdf'' st
      = (Failure (''PDF processing failed: '' @ e3), st)"
    by (simp add: process_document_def document_body_def process_pdf_def pdf_body_def)
next
  assume "PDF_AVAILABLE lib \<and> read_pdf lib path = Inr (map Inr good_pages @ Inl e4 # more_pages)"
  then show "process_document lib path ''pdf'' st
      = (Failure (''PDF processing failed: '' @ e4), st)"
    by (simp add: process_document_def document_body_def process_pdf_def pdf_body_def
        extract_pages_fail)
next
  assume "\<not> PDF_AVAILABLE lib"
  then show "process_document lib path ''pdf'' st
      = (Failure ''PDF processing library not available. Install pypdf.'', st)"
    by (simp add: process_document_def document_body_def process_pdf_def)
next
  assume "file_type \<noteq> ''excel'' \<and> file_type \<noteq> ''pdf''"
  then show "process_document lib path file_type st
      = (Failure (''Unsupported file type: '' @ file_type), st)"
    by (simp add: process_document_def document_body_def)
next
  show "success (fst (process_document lib path file_type st))
      \<or> (\<exists>msg. fst (process_document lib path file_type st) = Failure msg \<and> msg \<noteq> [])"
    by (rule process_document_total)
qed

lemma failing_reads:
  "read_workbook sample_library ''lost.xlsx'' = Inl ''No such file''"
  "read_workbook sample_library ''broken.xlsx''
     = Inr (map (\<lambda>(n, df). (n, Inr df)) [(''Q1'', DataFrame ''Revenue: 100'')]
            @ (''Q2'', Inl ''bad sheet'') # [])"
  "PDF_AVAILABLE sample_library \<and> read_pdf sample_library ''lost.pdf'' = Inl ''No such file''"
  "PDF_AVAILABLE damaged_library \<and> read_pdf damaged_library ''scan.pdf''
     = Inr (map Inr [''page one''] @ Inl ''cannot decode page'' # [Inr ''page three''])"
  "\<not> PDF_AVAILABLE no_pdf_library"
  "''docx'' \<noteq> ''excel'' \<and> ''docx'' \<noteq> ''pdf''"
  by (simp_all add: sample_library_def damaged_library_def no_pdf_library_def)

theorem process_document_catches_witness:
  "process_document sample_library ''lost.xlsx'' ''excel'' new_document_processor
     = (Failure ''Excel processing failed: No such file'', new_document_processor)
   \<and> fst (process_document sample_library ''broken.xlsx'' ''excel'' new_document_processor)
     = Failure ''Excel processing failed: bad sheet''
   \<and> process_document sample_library ''lost.pdf'' ''pdf'' new_document_processor
     = (Failure ''PDF processing failed: No such file'', new_document_processor)
   \<and> process_document damaged_library ''scan.pdf'' ''pdf'' new_document_processor
     = (Failure ''PDF processing failed: cannot decode page'', new_document_processor)
   \<and> process_document no_pdf_library ''report.pdf'' ''pdf'' new_document_processor
     = (Failure ''PDF processing library not available. Install pypdf.'',
        new_document_processor)
   \<and> process_document sample_library ''notes.docx'' ''docx'' new_document_processor
     = (Failure ''Unsupported file type: docx'', new_document_processor)"
proof -
  note t1 = process_document_catches [of sample_library "''lost.xlsx''" "''No such file''"
      new_document_processor, THEN conjunct1, THEN mp, OF failing_reads(1)]
  note t2 = process_document_catches [of sample_library "''broken.xlsx''" _
      new_document_processor "[(''Q1'', DataFrame ''Revenue: 100'')]" "''Q2''" "''bad sheet''"
      "[]", THEN conjunct2, THEN conjunct1, THEN mp, OF failing_reads(2)]
  note t3 = process_document_catches [of sample_library "''lost.pdf''" _
      new_document_processor _ _ _ _ "''No such file''",
      THEN conjunct2, THEN conjunct2, THEN conjunct1, THEN mp, OF failing_reads(3)]
  note t4 = process_document_catches [of damaged_library "''scan.pdf''" _
      new_document_processor _ _ _ _ _ "[''page one'']" "''cannot decode page''"
      "[Inr ''page three'']",
      THEN conjunct2, THEN conjunct2, THEN conjunct2, THEN conjunct1, THEN mp,
      OF failing_reads(4)]
  note t5 = process_document_catches [of no_pdf_library "''report.pdf''" _
      new_document_processor,
      THEN conjunct2, THEN conjunct2, THEN conjunct2, THEN conjunct2, THEN conjunct1, THEN mp,
      OF failing_reads(5)]
  note t6 = process_document_catches [of sample_library "''notes.docx''" _
      new_document_processor _ _ _ _ _ _ _ _ "''docx''",
      THEN conjunct2, THEN conjunct2, THEN conjunct2, THEN conjunct2, THEN conjunct2,
      THEN conjunct1, THEN mp, OF failing_reads(6)]
  show ?thesis
    using t1 t2 t3 t4 t5 t6 by simp
qed















end
